theory Spec2Isabelle
  imports Complex_Main "HOL-Library.Word"
begin

unbundle bit_operations_syntax

section \<open>The PN532 UART driver: data model\<close>

text \<open>
  The driver is Python 2 code: \<open>bytes\<close> is \<open>str\<close>, a sequence of 8-bit characters, and
  integers are unbounded. A byte is an 8-bit word, \<open>ord\<close> reads it as an integer and
  \<open>chr\<close> raises on an integer outside \<open>range(256)\<close> and on a value that is no integer.
  Only the dynamic values the frame code handles are modelled: \<open>None\<close>, integers,
  byte strings, tuples and lists.
\<close>

type_synonym byte = "8 word"
type_synonym bytes = "byte list"

datatype pyval =
    PNone
  | PInt int
  | PStr bytes
  | PTuple "pyval list"
  | PList "pyval list"

text \<open>
  Every exception the modelled code raises. \<open>Error\<close> is the application error of
  \<open>pn532/__init__.py\<close>; it carries \<open>raw_code\<close>, whatever value the constructor was
  given. \<open>IOError\<close> is the plain \<open>IOError\<close> of \<open>doit\<close> (its message is left out);
  \<open>ChecksumError\<close> and \<open>TimeoutError\<close> are the two subclasses of \<open>_stream.py\<close>.
\<close>

datatype exn =
    TypeError
  | ValueError
  | IndexError
  | KeyError
  | AttributeError
  | NotImplementedError
  | ChecksumError
  | TimeoutError
  | IOError
  | Error pyval

text \<open>
  A frame instance. \<open>klass\<close> tells which \<open>towire\<close> the instance has (\<open>ACK\<close> and
  \<open>NACK\<close> override it) and what \<open>isinstance(f, ACK)\<close> answers. \<open>sent\<close>, \<open>code\<close>
  and \<open>command\<close> are the attributes \<open>sent\<close>, \<open>__code__\<close> (\<open>None\<close> or an integer)
  and \<open>command\<close>;
  \<open>payload_result\<close> is what the method \<open>__payload__()\<close> of the instance does: it
  raises, or returns a value (\<open>None\<close>, a tuple or list of fields, or something else).
  \<open>args\<close> are the values the instance was constructed from.
\<close>

datatype klass = ACK_class | NACK_class | Frame_class string

datatype frame = Frame
  (klass: klass)
  (args: "pyval list")
  (sent: "bool option")
  (code: "int option")
  (payload_result: "exn + pyval")
  (command: "frame option")

definition ACK :: frame where
  "ACK = Frame ACK_class [] None None (Inl NotImplementedError) None"

definition NACK :: frame where
  "NACK = Frame NACK_class [] None None (Inl NotImplementedError) None"

definition set_command :: "frame \<Rightarrow> frame \<Rightarrow> frame" where
  "set_command res f = Frame (klass res) (args res) (sent res) (code res) (payload_result res) (Some f)"

definition set_sent :: "frame \<Rightarrow> bool \<Rightarrow> frame" where
  "set_sent f b = Frame (klass f) (args f) (Some b) (code f) (payload_result f) (command f)"

section \<open>Byte helpers of \<open>pn532/__init__.py\<close>\<close>

definition py_ord :: "byte \<Rightarrow> int" where
  "py_ord b = uint b"

fun py_chr :: "pyval \<Rightarrow> exn + byte" where
  "py_chr (PInt n) = (if 0 \<le> n \<and> n < 256 then Inr (word_of_int n) else Inl ValueError)"
| "py_chr _ = Inl TypeError"

text \<open>\<open>bytepack(*nums)\<close>: \<open>''.join(map(chr, nums))\<close>, over the tuple of its arguments.\<close>

fun bytepack :: "pyval list \<Rightarrow> exn + bytes" where
  "bytepack [] = Inr []"
| "bytepack (x # xs) =
     (case py_chr x of
        Inl e \<Rightarrow> Inl e
      | Inr c \<Rightarrow> (case bytepack xs of Inl e \<Rightarrow> Inl e | Inr cs \<Rightarrow> Inr (c # cs)))"

text \<open>
  \<open>tobytes(n, l)\<close>. The loop appends \<open>n & 0xFF\<close> and shifts \<open>n\<close> right by 8,
  \<open>l\<close> times (\<open>range(l)\<close> is empty for \<open>l \<le> 0\<close>); then the list \<open>rv\<close> is handed
  to \<open>bytepack\<close> as ONE argument (\<open>bytepack(rv)\<close>, not \<open>bytepack(*rv)\<close>).
\<close>

fun tobytes_loop :: "nat \<Rightarrow> int \<Rightarrow> int list \<Rightarrow> int list" where
  "tobytes_loop 0 n rv = rv"
| "tobytes_loop (Suc i) n rv = tobytes_loop i (drop_bit 8 n) (rv @ [n AND 0xFF])"

definition tobytes :: "int \<Rightarrow> int \<Rightarrow> exn + bytes" where
  "tobytes n l = (let rv = tobytes_loop (nat l) n [] in bytepack [PList (map PInt rv)])"

text \<open>
  \<open>Frame._checksum(data)\<close>: a byte string is turned into the list of its \<open>ord\<close>s, a
  number into a one-element list, anything else is summed as it is (\<open>sum\<close> starts from
  the integer 0, so a list or tuple with a non-integer element raises \<open>TypeError\<close>, and
  so does \<open>None\<close>). The result is \<open>-s & 0xFF\<close>, that is \<open>(-s) & 0xFF\<close>.
\<close>

fun py_sum :: "pyval list \<Rightarrow> exn + int" where
  "py_sum [] = Inr 0"
| "py_sum (PInt n # xs) = (case py_sum xs of Inl e \<Rightarrow> Inl e | Inr s \<Rightarrow> Inr (n + s))"
| "py_sum (_ # xs) = Inl TypeError"

fun checksum :: "pyval \<Rightarrow> exn + int" where
  "checksum (PStr data) = Inr ((- sum_list (map py_ord data)) AND 0xFF)"
| "checksum (PInt data) = Inr ((- sum_list [data]) AND 0xFF)"
| "checksum (PList data) = (case py_sum data of Inl e \<Rightarrow> Inl e | Inr s \<Rightarrow> Inr ((- s) AND 0xFF))"
| "checksum (PTuple data) = (case py_sum data of Inl e \<Rightarrow> Inl e | Inr s \<Rightarrow> Inr ((- s) AND 0xFF))"
| "checksum PNone = Inl TypeError"

section \<open>Encoding a frame\<close>

text \<open>
  One pass of the loop \<open>for field in fields\<close> of \<open>_buildpayload\<close>: a number goes
  through \<open>bytepack\<close>, a byte string is appended as it is, a tuple is handed to
  \<open>tobytes(*field)\<close> (which raises \<open>TypeError\<close> for a tuple that is not a pair of
  integers: wrong number of arguments, or \<open>range\<close>, \<open>&\<close> or \<open>chr\<close> on a non-integer);
  any other field is skipped, there is no \<open>else\<close>.
\<close>

fun add_field :: "pyval \<Rightarrow> exn + bytes" where
  "add_field (PInt n) = bytepack [PInt n]"
| "add_field (PStr s) = Inr s"
| "add_field (PTuple [PInt n, PInt l]) = tobytes n l"
| "add_field (PTuple _) = Inl TypeError"
| "add_field _ = Inr []"

fun add_fields :: "bytes \<Rightarrow> pyval list \<Rightarrow> exn + bytes" where
  "add_fields payload [] = Inr payload"
| "add_fields payload (field # fields) =
     (case add_field field of
        Inl e \<Rightarrow> Inl e
      | Inr s \<Rightarrow> add_fields (payload @ s) fields)"

text \<open>
  What \<open>for field in fields\<close> iterates over: the elements of a tuple or list, the
  one-character strings of a byte string; an integer is not iterable.
\<close>

fun py_iter :: "pyval \<Rightarrow> exn + pyval list" where
  "py_iter (PTuple xs) = Inr xs"
| "py_iter (PList xs) = Inr xs"
| "py_iter (PStr s) = Inr (map (\<lambda>c. PStr [c]) s)"
| "py_iter _ = Inl TypeError"

text \<open>\<open>Frame._buildpayload\<close>: direction tag, command code, fields.\<close>

definition buildpayload :: "frame \<Rightarrow> exn + bytes" where
  "buildpayload f =
     (let payload = (if sent f = Some True then [0xD4] else [0xD5]) in
      case bytepack [case code f of None \<Rightarrow> PNone | Some c \<Rightarrow> PInt c] of
        Inl e \<Rightarrow> Inl e
      | Inr c \<Rightarrow>
         (case payload_result f of
            Inl e \<Rightarrow> Inl e
          | Inr PNone \<Rightarrow> Inr (payload @ c)
          | Inr fields \<Rightarrow>
             (case py_iter fields of
                Inl e \<Rightarrow> Inl e
              | Inr fs \<Rightarrow> add_fields (payload @ c) fs)))"

text \<open>
  \<open>Frame.towire\<close>, the part after the payload is built: the short form for at most
  255 payload bytes, the extended form otherwise.
\<close>

definition wrap :: "bytes \<Rightarrow> exn + bytes" where
  "wrap payload =
     (case checksum (PStr payload) of
        Inl e \<Rightarrow> Inl e
      | Inr dcs \<Rightarrow>
         (let len = int (length payload); msg = [0x00, 0xFF] in
          if len \<le> 0xFF then
            (case checksum (PInt len) of
               Inl e \<Rightarrow> Inl e
             | Inr lcs \<Rightarrow>
                (case bytepack [PInt len, PInt lcs] of
                   Inl e \<Rightarrow> Inl e
                 | Inr h \<Rightarrow>
                    (case bytepack [PInt dcs] of
                       Inl e \<Rightarrow> Inl e
                     | Inr d \<Rightarrow> Inr (msg @ h @ payload @ d))))
          else
            (case tobytes len 2 of
               Inl e \<Rightarrow> Inl e
             | Inr lm \<Rightarrow>
                (case checksum (PStr lm) of
                   Inl e \<Rightarrow> Inl e
                 | Inr lcs \<Rightarrow>
                    (case bytepack [PInt lcs] of
                       Inl e \<Rightarrow> Inl e
                     | Inr l \<Rightarrow>
                        (case bytepack [PInt dcs] of
                           Inl e \<Rightarrow> Inl e
                         | Inr d \<Rightarrow> Inr (msg @ [0xFF, 0xFF] @ lm @ l @ payload @ d)))))))"

text \<open>\<open>towire\<close>, with the two overrides of \<open>ACK\<close> and \<open>NACK\<close>.\<close>

definition towire :: "frame \<Rightarrow> exn + bytes" where
  "towire f =
     (case klass f of
        ACK_class \<Rightarrow> Inr [0x00, 0x00, 0xFF, 0x00, 0xFF, 0x00]
      | NACK_class \<Rightarrow> Inr [0x00, 0x00, 0xFF, 0xFF, 0x00, 0x00]
      | Frame_class _ \<Rightarrow>
         (case buildpayload f of Inl e \<Rightarrow> Inl e | Inr payload \<Rightarrow> wrap payload))"

section \<open>The frame registry\<close>

text \<open>
  A frame class, as far as the registry and the decoder use it: its name, the class
  attributes \<open>__code__\<close> and \<open>sent\<close>, and the class method \<open>__build__\<close>, which makes
  an instance from the list of payload integers or raises. \<open>Frame._types\<close> is a
  dictionary from command code to class.
\<close>

record frame_class =
  cls_name :: string
  cls_code :: "int option"
  cls_sent :: "bool option"
  cls_build :: "int list \<Rightarrow> exn + frame"

type_synonym registry = "int \<rightharpoonup> frame_class"

text \<open>
  \<open>Frame.__metaclass__.__init__\<close>, run when a class is created: a class with a code
  gets its direction from the parity of the code unless \<open>sent\<close> is already set, and is
  stored under its code by a plain dictionary assignment.
\<close>

definition default_sent :: "int \<Rightarrow> bool" where
  "default_sent c = (\<not> (c AND 1 \<noteq> 0))"

definition metaclass_init :: "frame_class \<Rightarrow> registry \<Rightarrow> frame_class \<times> registry" where
  "metaclass_init cls types =
     (case cls_code cls of
        None \<Rightarrow> (cls, types)
      | Some c \<Rightarrow>
         (let cls' = (if cls_sent cls = None then cls\<lparr>cls_sent := Some (default_sent c)\<rparr> else cls)
          in (cls', types(c \<mapsto> cls'))))"

text \<open>\<open>Frame.get_class(code)\<close>: \<open>Frame._types[code]\<close>, a \<open>KeyError\<close> for a missing key.\<close>

definition get_class :: "registry \<Rightarrow> int \<Rightarrow> exn + frame_class" where
  "get_class types c = (case types c of None \<Rightarrow> Inl KeyError | Some cls \<Rightarrow> Inr cls)"

text \<open>\<open>cls.fromwire(data)\<close>: \<open>cls.__build__(map(ord, data))\<close>.\<close>

definition fromwire :: "frame_class \<Rightarrow> bytes \<Rightarrow> exn + frame" where
  "fromwire cls data = cls_build cls (map py_ord data)"

section \<open>The serial line and the clock\<close>

text \<open>
  The port and the wall clock are the environment. \<open>rx\<close> is what the line delivers:
  its \<open>k\<close>-th entry is the outcome of the \<open>k\<close>-th wait for one byte, a byte or nothing
  within the port's read timeout (\<open>TIMEOUT_RES\<close>); \<open>clock\<close> gives the value of the
  \<open>k\<close>-th call of \<open>time.time()\<close>, a real number standing for the float. \<open>written\<close>
  lists the arguments of the calls of \<open>serial.write\<close>, oldest first. The port itself
  never raises; the debugging output (\<open>print\<close>, \<open>_debug\<close>) is left out.
\<close>

record world =
  rx :: "nat \<Rightarrow> byte option"
  rx_pos :: nat
  clock :: "nat \<Rightarrow> real"
  clock_pos :: nat
  written :: "bytes list"

definition time_time :: "world \<Rightarrow> real \<times> world" where
  "time_time w = (clock w (clock_pos w), w\<lparr>clock_pos := Suc (clock_pos w)\<rparr>)"

text \<open>
  \<open>serial.read(n)\<close>: up to \<open>n\<close> bytes; the call returns what it has when a wait for
  the next byte runs into the port's timeout.
\<close>

fun serial_read :: "nat \<Rightarrow> world \<Rightarrow> bytes \<times> world" where
  "serial_read 0 w = ([], w)"
| "serial_read (Suc n) w =
     (case rx w (rx_pos w) of
        None \<Rightarrow> ([], w\<lparr>rx_pos := Suc (rx_pos w)\<rparr>)
      | Some b \<Rightarrow>
         (case serial_read n (w\<lparr>rx_pos := Suc (rx_pos w)\<rparr>) of
            (bs, w') \<Rightarrow> (b # bs, w')))"

definition serial_write :: "bytes \<Rightarrow> world \<Rightarrow> world" where
  "serial_write msg w = w\<lparr>written := written w @ [msg]\<rparr>"

section \<open>The transport of \<open>pn532/_stream.py\<close>\<close>

text \<open>\<open>PN532.send(frame, preamble, postamble)\<close>; both default to one zero byte.\<close>

definition send :: "frame \<Rightarrow> bytes \<Rightarrow> bytes \<Rightarrow> world \<Rightarrow> (exn + unit) \<times> world" where
  "send f preamble postamble w =
     (case towire f of
        Inl e \<Rightarrow> (Inl e, w)
      | Inr m \<Rightarrow> (Inr (), serial_write (preamble @ m @ postamble) w))"

text \<open>
  \<open>PN532._verifychecksum(*args)\<close>: byte strings contribute the sum of their bytes,
  anything else is added as it is.
\<close>

fun thing_sum :: "pyval \<Rightarrow> exn + int" where
  "thing_sum (PStr s) = Inr (sum_list (map py_ord s))"
| "thing_sum (PInt n) = Inr n"
| "thing_sum _ = Inl TypeError"

fun things_sum :: "int \<Rightarrow> pyval list \<Rightarrow> exn + int" where
  "things_sum s [] = Inr s"
| "things_sum s (thing # things) =
     (case thing_sum thing of Inl e \<Rightarrow> Inl e | Inr n \<Rightarrow> things_sum (s + n) things)"

definition verifychecksum :: "pyval list \<Rightarrow> exn + unit" where
  "verifychecksum things =
     (case things_sum 0 things of
        Inl e \<Rightarrow> Inl e
      | Inr s \<Rightarrow> if s AND 0xFF \<noteq> 0 then Inl ChecksumError else Inr ())"

text \<open>
  The body of the three reading loops of \<open>raw_get\<close>: read one byte (or nothing) onto
  the header, then compare the clock with the deadline, if there is one.
\<close>

definition read_step :: "real option \<Rightarrow> bytes \<Rightarrow> world \<Rightarrow> (exn + bytes) \<times> world" where
  "read_step stop header w =
     (case serial_read 1 w of
        (b, w1) \<Rightarrow>
          (case stop of
             None \<Rightarrow> (Inr (header @ b), w1)
           | Some s \<Rightarrow>
              (case time_time w1 of
                 (now, w2) \<Rightarrow>
                   if s < now then (Inl TimeoutError, w2) else (Inr (header @ b), w2))))"

text \<open>
  The loops themselves, \<open>while cond(header): ...\<close>. Nothing bounds them when there is
  no deadline, or when the clock does not advance: a run that never leaves the loop is
  \<open>None\<close>.
\<close>

partial_function (option) read_while ::
  "(bytes \<Rightarrow> bool) \<Rightarrow> real option \<Rightarrow> bytes \<Rightarrow> world \<Rightarrow> ((exn + bytes) \<times> world) option"
where
  "read_while cond stop header w =
     (if cond header then
        (case read_step stop header w of
           (Inl e, w') \<Rightarrow> Some (Inl e, w')
         | (Inr header', w') \<Rightarrow> read_while cond stop header' w')
      else Some (Inr header, w))"

text \<open>\<open>"\x00\xFF" in header\<close> and \<open>header.index("\x00\xFF")\<close>.\<close>

fun index_00FF :: "bytes \<Rightarrow> nat option" where
  "index_00FF (a # b # r) =
     (if a = 0x00 \<and> b = 0xFF then Some 0 else map_option Suc (index_00FF (b # r)))"
| "index_00FF _ = None"

text \<open>
  What the header says comes next: \<open>ACK()\<close> or \<open>NACK()\<close> is returned at once, or
  \<open>LEN\<close> bytes of data follow.
\<close>

datatype shape = Got frame | Body int

text \<open>
  \<open>raw_get\<close>, lines 93 to 111: classification by \<open>LEN\<close> and \<open>LCS\<close>, with the three
  further header bytes of the extended form. \<open>header[2]\<close> and the like raise on a
  header that is too short (the loops before them exclude that).
\<close>

definition parse_header ::
  "real option \<Rightarrow> bytes \<Rightarrow> world \<Rightarrow> ((exn + shape) \<times> world) option"
where
  "parse_header stop header w =
     (case drop 2 header of
        LEN' # LCS' # _ \<Rightarrow>
          (let LEN = py_ord LEN'; LCS = py_ord LCS' in
           if LEN = 0 \<and> LCS = 0xFF then Some (Inr (Got ACK), w)
           else if LEN = 0xFF \<and> LCS = 0 then Some (Inr (Got NACK), w)
           else if LEN = 0xFF \<and> LCS = 0xFF then
             Option.bind (read_while (\<lambda>h. length h < 7) stop header w)
               (\<lambda>(r, w').
                  case r of
                    Inl e \<Rightarrow> Some (Inl e, w')
                  | Inr header' \<Rightarrow>
                     (case drop 4 header' of
                        LENM' # LENL' # LCS2' # _ \<Rightarrow>
                          (let LENM = py_ord LENM'; LENL = py_ord LENL';
                               LEN = LENM * 0xFF + LENL; LCS = py_ord LCS2' in
                           case verifychecksum [PInt LENM, PInt LENL, PInt LCS] of
                             Inl e \<Rightarrow> Some (Inl e, w')
                           | Inr _ \<Rightarrow> Some (Inr (Body LEN), w'))
                      | [_, _] \<Rightarrow> Some (Inl IndexError, w')
                      | _ \<Rightarrow> Some (Inl ValueError, w')))
           else
             (case verifychecksum [PInt LEN, PInt LCS] of
                Inl e \<Rightarrow> Some (Inl e, w)
              | Inr _ \<Rightarrow> Some (Inr (Body LEN), w)))
      | _ \<Rightarrow> Some (Inl IndexError, w))"

text \<open>
  \<open>raw_get\<close>, lines 112 to 125: the data, its checksum, and the frame or the
  application error. \<open>TFI\<close> is \<open>data[0]\<close>, a one-character string, and it is this
  string that \<open>Error\<close> is raised with.
\<close>

definition read_body :: "registry \<Rightarrow> int \<Rightarrow> world \<Rightarrow> (exn + frame) \<times> world" where
  "read_body types LEN w =
     (case serial_read (nat LEN) w of
        (data, w1) \<Rightarrow>
          (case serial_read 1 w1 of
             (DCS, w2) \<Rightarrow>
               (case verifychecksum [PStr data, PStr DCS] of
                  Inl e \<Rightarrow> (Inl e, w2)
                | Inr _ \<Rightarrow>
                   (case data of
                      [] \<Rightarrow> (Inl IndexError, w2)
                    | TFI # rest \<Rightarrow>
                       if TFI = 0xD4 \<or> TFI = 0xD5 then
                         (case rest of
                            [] \<Rightarrow> (Inl IndexError, w2)
                          | c # payload \<Rightarrow>
                             (case get_class types (py_ord c) of
                                Inl e \<Rightarrow> (Inl e, w2)
                              | Inr cls \<Rightarrow>
                                 (case fromwire cls payload of
                                    Inl e \<Rightarrow> (Inl e, w2)
                                  | Inr f \<Rightarrow> (Inr (set_sent f (TFI = 0xD4)), w2))))
                       else (Inl (Error (PStr [TFI])), w2)))))"

text \<open>\<open>PN532.raw_get(timeout)\<close>.\<close>

definition raw_get :: "registry \<Rightarrow> real option \<Rightarrow> world \<Rightarrow> ((exn + frame) \<times> world) option" where
  "raw_get types timeout w =
     (case (case timeout of
              None \<Rightarrow> (None, w)
            | Some t \<Rightarrow> (case time_time w of (now, w') \<Rightarrow> (Some (now + t), w'))) of
        (stop, w0) \<Rightarrow>
          Option.bind (read_while (\<lambda>h. index_00FF h = None) stop [] w0)
            (\<lambda>(r, w1).
               case r of
                 Inl e \<Rightarrow> Some (Inl e, w1)
               | Inr header \<Rightarrow>
                  (case index_00FF header of
                     None \<Rightarrow> Some (Inl ValueError, w1)
                   | Some start \<Rightarrow>
                      Option.bind (read_while (\<lambda>h. length h < 4) stop (drop start header) w1)
                        (\<lambda>(r, w2).
                           case r of
                             Inl e \<Rightarrow> Some (Inl e, w2)
                           | Inr header' \<Rightarrow>
                              Option.bind (parse_header stop header' w2)
                                (\<lambda>(r, w3).
                                   case r of
                                     Inl e \<Rightarrow> Some (Inl e, w3)
                                   | Inr (Got f) \<Rightarrow> Some (Inr f, w3)
                                   | Inr (Body LEN) \<Rightarrow> Some (read_body types LEN w3))))))"

text \<open>
  \<open>PN532.get(timeout)\<close>: \<open>while True\<close> around \<open>raw_get(timeout)\<close>; a
  \<open>ChecksumError\<close> is answered with a NACK and the loop goes round again, anything
  else leaves the loop.
\<close>

partial_function (option) get ::
  "registry \<Rightarrow> real option \<Rightarrow> world \<Rightarrow> ((exn + frame) \<times> world) option"
where
  "get types timeout w =
     Option.bind (raw_get types timeout w)
       (\<lambda>(r, w').
          if r = Inl ChecksumError then
            (case send NACK [0x00] [0x00] w' of
               (Inl e, w'') \<Rightarrow> Some (Inl e, w'')
             | (Inr _, w'') \<Rightarrow> get types timeout w'')
          else Some (r, w'))"

text \<open>
  \<open>PN532.doit(frame, timeout, **kw)\<close>; the keywords are the preamble and postamble
  of the first \<open>send\<close>.
\<close>

definition doit ::
  "registry \<Rightarrow> frame \<Rightarrow> real option \<Rightarrow> bytes \<Rightarrow> bytes \<Rightarrow> world \<Rightarrow> ((exn + frame) \<times> world) option"
where
  "doit types f timeout preamble postamble w =
     (case send f preamble postamble w of
        (Inl e, w1) \<Rightarrow> Some (Inl e, w1)
      | (Inr _, w1) \<Rightarrow>
         Option.bind (get types timeout w1)
           (\<lambda>(r, w2).
              case r of
                Inl e \<Rightarrow> Some (Inl e, w2)
              | Inr ack \<Rightarrow>
                 if klass ack = ACK_class then
                   Option.bind (get types timeout w2)
                     (\<lambda>(r, w3).
                        case r of
                          Inl e \<Rightarrow> Some (Inl e, w3)
                        | Inr res \<Rightarrow>
                           (case send ACK [0x00] [0x00] w3 of
                              (Inl e, w4) \<Rightarrow> Some (Inl e, w4)
                            | (Inr _, w4) \<Rightarrow> Some (Inr (set_command res f), w4)))
                 else Some (Inl IOError, w2)))"

text \<open>
  The frame \<open>SAMConfiguration(Mode, Timeout, IRQ)\<close> (code \<open>0x14\<close>) and
  \<open>GetFirmwareVersion()\<close> (code \<open>0x02\<close>), with their \<open>__payload__\<close> methods; both take
  their direction from the parity of the code.
\<close>

definition SAMConfiguration :: "pyval \<Rightarrow> pyval \<Rightarrow> pyval \<Rightarrow> frame" where
  "SAMConfiguration Mode Timeout IRQ =
     Frame (Frame_class ''SAMConfiguration'') [Mode, Timeout, IRQ]
       (Some (default_sent 0x14)) (Some 0x14)
       (Inr (if IRQ \<noteq> PNone then PTuple [Mode, Timeout, IRQ]
             else if Mode = PInt 0x02 then PTuple [Mode, Timeout]
             else PTuple [Mode]))
       None"

definition GetFirmwareVersion :: frame where
  "GetFirmwareVersion =
     Frame (Frame_class ''GetFirmwareVersion'') [] (Some (default_sent 0x02)) (Some 0x02)
       (Inr PNone) None"

text \<open>The wake-up preamble of \<open>__enter__\<close>, as the source writes it.\<close>

definition wakeup_preamble :: bytes where
  "wakeup_preamble = [0x55, 0x55, 0, 0, 0, 0, 0, 0, 0, 0, 0, 0, 0, 0, 0, 0, 0]"

text \<open>
  \<open>PN532.__enter__\<close> after the port is opened: the configuration frame, one \<open>get\<close>
  with a timeout of one second whose \<open>TimeoutError\<close> is swallowed, and in the
  \<open>else\<close> branch of the \<open>try\<close> a second \<open>get\<close> with no timeout.
\<close>

definition enter :: "registry \<Rightarrow> world \<Rightarrow> ((exn + unit) \<times> world) option" where
  "enter types w =
     (case send (SAMConfiguration (PInt 1) (PInt 0) PNone) wakeup_preamble [0x00] w of
        (Inl e, w1) \<Rightarrow> Some (Inl e, w1)
      | (Inr _, w1) \<Rightarrow>
         Option.bind (get types (Some 1.0) w1)
           (\<lambda>(r, w2).
              case r of
                Inl e \<Rightarrow> if e = TimeoutError then Some (Inr (), w2) else Some (Inl e, w2)
              | Inr _ \<Rightarrow>
                 Option.bind (get types None w2)
                   (\<lambda>(r, w3).
                      case r of
                        Inl e \<Rightarrow> Some (Inl e, w3)
                      | Inr _ \<Rightarrow> Some (Inr (), w3))))"

text \<open>
  The properties \<open>NADPresent\<close>, \<open>MI\<close> and \<open>error_code\<close> of \<open>Error\<close>, on the
  \<open>raw_code\<close> the exception carries: \<open>&\<close> with an integer is defined for an integer
  and raises \<open>TypeError\<close> for a string, a tuple, a list and \<open>None\<close>.
\<close>

fun py_and :: "pyval \<Rightarrow> int \<Rightarrow> exn + int" where
  "py_and (PInt n) m = Inr (n AND m)"
| "py_and _ m = Inl TypeError"

definition NADPresent :: "pyval \<Rightarrow> exn + bool" where
  "NADPresent raw_code = (case py_and raw_code 0x80 of Inl e \<Rightarrow> Inl e | Inr v \<Rightarrow> Inr (v \<noteq> 0))"

definition MI :: "pyval \<Rightarrow> exn + bool" where
  "MI raw_code = (case py_and raw_code 0x40 of Inl e \<Rightarrow> Inl e | Inr v \<Rightarrow> Inr (v \<noteq> 0))"

definition error_code :: "pyval \<Rightarrow> exn + int" where
  "error_code raw_code = py_and raw_code 0x3F"

section \<open>Frame classes and environments used below\<close>

text \<open>
  \<open>ReadRegisterResponse(*values)\<close> (code \<open>0x07\<close>): \<open>__payload__\<close> returns the tuple
  of the values.
\<close>

definition ReadRegisterResponse :: "pyval list \<Rightarrow> frame" where
  "ReadRegisterResponse values =
     Frame (Frame_class ''ReadRegisterResponse'') values (Some (default_sent 0x07)) (Some 0x07)
       (Inr (PTuple values)) None"

text \<open>
  \<open>GetFirmwareVersionResponse\<close> (code \<open>0x03\<close>) is created twice. The \<open>class\<close>
  statement makes a plain subclass of \<open>Frame\<close>, whose constructor takes no argument
  and whose instances have no attribute \<open>IC\<close>; then the decorator
  \<open>@fields('IC', 'Ver', 'Rev', 'Support')\<close> makes a second class of the same name and
  code from it and a named tuple of four fields, with the attributes of the first
  (its \<open>sent\<close> included). Each creation runs the metaclass.
\<close>

definition GetFirmwareVersionResponse :: "pyval \<Rightarrow> pyval \<Rightarrow> pyval \<Rightarrow> pyval \<Rightarrow> frame" where
  "GetFirmwareVersionResponse IC Ver Rev Support =
     Frame (Frame_class ''GetFirmwareVersionResponse'') [IC, Ver, Rev, Support]
       (Some (default_sent 0x03)) (Some 0x03) (Inr (PTuple [IC, Ver, Rev, Support])) None"

definition GetFirmwareVersionResponse_body :: frame_class where
  "GetFirmwareVersionResponse_body =
     \<lparr>cls_name = ''GetFirmwareVersionResponse'', cls_code = Some 0x03, cls_sent = None,
      cls_build = (\<lambda>payload.
         case payload of
           [] \<Rightarrow> Inr (Frame (Frame_class ''GetFirmwareVersionResponse'') []
                       (Some (default_sent 0x03)) (Some 0x03) (Inl AttributeError) None)
         | _ \<Rightarrow> Inl TypeError)\<rparr>"

definition GetFirmwareVersionResponse_fields :: "frame_class \<Rightarrow> frame_class" where
  "GetFirmwareVersionResponse_fields cls =
     \<lparr>cls_name = cls_name cls, cls_code = cls_code cls, cls_sent = cls_sent cls,
      cls_build = (\<lambda>payload.
         case payload of
           [IC, Ver, Rev, Support] \<Rightarrow>
             Inr (GetFirmwareVersionResponse (PInt IC) (PInt Ver) (PInt Rev) (PInt Support))
         | _ \<Rightarrow> Inl TypeError)\<rparr>"

text \<open>The registry after these two class creations, starting from an empty one.\<close>

definition firmware_types :: registry where
  "firmware_types =
     (case metaclass_init GetFirmwareVersionResponse_body Map.empty of
        (c0, t0) \<Rightarrow> snd (metaclass_init (GetFirmwareVersionResponse_fields c0) t0))"

text \<open>
  A device that sends the bytes \<open>bs\<close> and then stays silent, with a clock that
  advances by one unit from one reading to the next; nothing written yet.
\<close>

definition device :: "bytes \<Rightarrow> world" where
  "device bs =
     \<lparr>rx = (\<lambda>k. if k < length bs then Some (bs ! k) else None), rx_pos = 0,
      clock = (\<lambda>k. real k), clock_pos = 0, written = []\<rparr>"

text \<open>
  A line that repeats \<open>00 FF 01 00\<close> for ever: a frame header whose length checksum
  is wrong, again and again. The clock advances as above.
\<close>

definition noisy :: world where
  "noisy =
     \<lparr>rx = (\<lambda>k. Some ([0x00, 0xFF, 0x01, 0x00] ! (k mod 4))), rx_pos = 0,
      clock = (\<lambda>k. real k), clock_pos = 0, written = []\<rparr>"

text \<open>The states of that line in which a header is about to start.\<close>

abbreviation noisy_inv :: "world \<Rightarrow> bool" where
  "noisy_inv w \<equiv> (rx w = rx noisy \<and> clock w = clock noisy \<and> rx_pos w mod 4 = 0)"

text \<open>What \<open>send(NACK())\<close> and \<open>send(ACK())\<close> write, with the default pre- and postamble.\<close>

definition nack_msg :: bytes where
  "nack_msg = [0x00, 0x00, 0x00, 0xFF, 0xFF, 0x00, 0x00, 0x00]"

definition ack_msg :: bytes where
  "ack_msg = [0x00, 0x00, 0x00, 0xFF, 0x00, 0xFF, 0x00, 0x00]"

text \<open>What \<open>__enter__\<close> writes: the preamble, the frame of \<open>SAMConfiguration(1, 0, None)\<close>
  and the default postamble.\<close>

definition wakeup_msg :: bytes where
  "wakeup_msg = wakeup_preamble @ [0x00, 0xFF, 0x03, 0xFD, 0xD4, 0x14, 0x01, 0x17] @ [0x00]"

section \<open>Auxiliary facts\<close>

lemma and_255: "(k::int) AND 0xFF = k mod 256"
  using take_bit_eq_mask[of 8 k]
  by (simp add: mask_eq_exp_minus_1 take_bit_eq_mod)

lemma word8_of_int_mod: "(word_of_int (k mod 256) :: 8 word) = word_of_int k"
  by (simp add: word_of_int_eq_iff take_bit_eq_mod)

lemma py_ord_chr: "0 \<le> c \<Longrightarrow> c < 256 \<Longrightarrow> py_ord (word_of_int c) = c"
  by (simp add: py_ord_def uint_word_of_int take_bit_eq_mod)

lemma tobytes_raises: "tobytes n l = Inl TypeError"
  by (simp add: tobytes_def)

lemma wrap_extended_raises: "255 < length payload \<Longrightarrow> wrap payload = Inl TypeError"
  by (simp add: wrap_def tobytes_raises)

lemma wrap_short_form:
  assumes "length payload \<le> 255"
  shows "wrap payload =
           Inr ([0x00, 0xFF, word_of_int (int (length payload)),
                 word_of_int (- int (length payload))] @ payload @
                [word_of_int (- sum_list (map py_ord payload))])"
  using assms
  by (simp add: wrap_def and_255 Let_def word8_of_int_mod del: of_int_minus of_int_of_nat_eq)

lemma add_fields_zeros:
  "add_fields p (replicate n (PInt 0)) = Inr (p @ replicate n 0)"
  by (induction n arbitrary: p) (simp_all add: replicate_app_Cons_same)

lemma ReadRegisterResponse_zeros_payload:
  "buildpayload (ReadRegisterResponse (replicate n (PInt 0))) = Inr (0xD5 # 0x07 # replicate n 0)"
  by (simp add: buildpayload_def ReadRegisterResponse_def default_sent_def add_fields_zeros)

lemma klass_ReadRegisterResponse:
  "klass (ReadRegisterResponse vs) = Frame_class ''ReadRegisterResponse''"
  by (simp add: ReadRegisterResponse_def)

lemma towire_short_255:
  "towire (ReadRegisterResponse (replicate 253 (PInt 0))) =
     Inr ([0x00, 0xFF, 0xFF, 0x01, 0xD5, 0x07] @ replicate 253 0 @ [0x24])"
  by (simp add: ReadRegisterResponse_zeros_payload klass_ReadRegisterResponse towire_def
      wrap_short_form py_ord_def o_def sum_list_replicate)

lemma short_header_255:
  "parse_header stop [0x00, 0xFF, 0xFF, 0x01] w = Some (Inr (Body 255), w)"
  by (simp add: parse_header_def py_ord_def verifychecksum_def)

lemma send_NACK: "send NACK [0x00] [0x00] w = (Inr (), serial_write nack_msg w)"
  by (simp add: send_def towire_def NACK_def nack_msg_def)

lemma send_ACK: "send ACK [0x00] [0x00] w = (Inr (), serial_write ack_msg w)"
  by (simp add: send_def towire_def ACK_def ack_msg_def)

lemma serial_read_numeral:
  "serial_read (numeral k) w =
     (case rx w (rx_pos w) of
        None \<Rightarrow> ([], w\<lparr>rx_pos := Suc (rx_pos w)\<rparr>)
      | Some b \<Rightarrow>
         (case serial_read (pred_numeral k) (w\<lparr>rx_pos := Suc (rx_pos w)\<rparr>) of
            (bs, w') \<Rightarrow> (b # bs, w')))"
  by (simp add: numeral_eq_Suc)

lemmas run_simps =
  raw_get_def read_while.simps read_step_def parse_header_def read_body_def py_ord_def
  verifychecksum_def time_time_def get_class_def fromwire_def set_sent_def Let_def
  serial_read_numeral serial_write_def

section \<open>The checksum\<close>

text \<open>
  Claim C2. For every byte string \<open>B\<close>, and for a single integer \<open>n\<close> (summed as
  the one-element list \<open>[n]\<close>), \<open>_checksum\<close> returns the negated sum modulo 256;
  the result is a byte value between 0 and 255, and the bytes (the list \<open>[n, c]\<close> for an
  integer) followed by the checksum sum to 0 modulo 256.
\<close>

theorem checksum_negated_sum_mod_256:
  "checksum (PStr B) = Inr ((- sum_list (map py_ord B)) mod 256)
   \<and> checksum (PInt n) = Inr ((- sum_list [n]) mod 256)
   \<and> (case checksum (PStr B) of
         Inl e \<Rightarrow> False
       | Inr c \<Rightarrow> 0 \<le> c \<and> c \<le> 255 \<and> sum_list (map py_ord (B @ [word_of_int c])) mod 256 = 0)
   \<and> (case checksum (PInt n) of
         Inl e \<Rightarrow> False
       | Inr c \<Rightarrow> 0 \<le> c \<and> c \<le> 255 \<and> sum_list ([n] @ [c]) mod 256 = 0)"
proof -
  have a: "checksum (PStr B) = Inr ((- sum_list (map py_ord B)) mod 256)"
    by (simp add: and_255)
  have b: "checksum (PInt n) = Inr ((- sum_list [n]) mod 256)"
    by (simp add: and_255)
  have r: "0 \<le> k mod 256 \<and> k mod 256 \<le> 255" for k :: int
    using pos_mod_bound[of 256 k] by simp
  have z: "(s + (- s) mod 256) mod 256 = 0" for s :: int
    by (simp add: mod_add_right_eq)
  have c: "sum_list (map py_ord (B @ [word_of_int ((- sum_list (map py_ord B)) mod 256)])) mod 256 = 0"
    using r[of "- sum_list (map py_ord B)"] z[of "sum_list (map py_ord B)"]
    by (simp add: py_ord_chr)
  show ?thesis
    using r[of "- sum_list (map py_ord B)"] r[of "- n"] z[of n] c
    unfolding a b by simp
qed

section \<open>Multi-byte fields\<close>

text \<open>
  Claim C6 asks for \<open>tobytes(v, l)\<close> to give the \<open>l\<close> big-endian bytes of \<open>v\<close>, as the
  docstring of \<open>tobytes\<close> says. On \<open>tobytes(0x0102, 2)\<close> the code raises
  \<open>TypeError\<close> (and it does so on every input, lemma \<open>tobytes_raises\<close>); the list it
  has built by then is \<open>[0x02, 0x01]\<close>, least significant byte first.
\<close>

theorem tobytes_0x0102_raises:
  "tobytes 0x0102 2 = Inl TypeError \<and> tobytes_loop (nat 2) 0x0102 [] = [0x02, 0x01]"
  by (simp add: tobytes_raises numeral_2_eq_2 drop_bit_eq_div)

section \<open>Short and extended frames\<close>

text \<open>
  Claim C1 asks for the extended form at 256 payload bytes and for the extended length
  to be read back as \<open>LENM * 256 + LENL\<close>. \<open>ReadRegisterResponse\<close> with 254 zero
  values has a payload of 256 bytes; \<open>towire\<close> raises \<open>TypeError\<close> on it (through
  \<open>tobytes\<close>). And after the header \<open>00 FF FF FF\<close>, the length bytes \<open>01 00\<close> with
  their checksum \<open>FF\<close>, which announce 256 bytes, are read as a length of 255
  (\<open>LENM * 0xFF + LENL\<close>). At 255 payload bytes the short form is produced
  (lemma \<open>towire_short_255\<close>) and its header is read as a length of 255
  (lemma \<open>short_header_255\<close>).
\<close>

theorem towire_256_raises_and_extended_length_misread:
  "buildpayload (ReadRegisterResponse (replicate 254 (PInt 0))) = Inr (0xD5 # 0x07 # replicate 254 0)
   \<and> length (0xD5 # 0x07 # replicate 254 (0::byte)) = 256
   \<and> towire (ReadRegisterResponse (replicate 254 (PInt 0))) = Inl TypeError
   \<and> map_option fst (parse_header None [0x00, 0xFF, 0xFF, 0xFF] (device [0x01, 0x00, 0xFF]))
       = Some (Inr (Body 255))"
  by (simp add: ReadRegisterResponse_zeros_payload klass_ReadRegisterResponse towire_def
      wrap_extended_raises parse_header_def read_while.simps read_step_def device_def py_ord_def
      verifychecksum_def)

section \<open>Application error frames\<close>

text \<open>
  Claim C5 asks for the application \<open>Error\<close> of an error frame to carry the status
  byte, decomposed into \<open>NADPresent\<close>, \<open>MI\<close> and \<open>error_code\<close>. The frame
  \<open>00 FF 01 FF 01 FF\<close> (one data byte \<open>01\<close>, both checksums right) makes \<open>raw_get\<close>
  raise \<open>Error\<close> with the one-character string \<open>"\x01"\<close>, not the integer 1, and on
  that value each of the three properties raises \<open>TypeError\<close>. On integers the
  properties decode as the claim says (lemma \<open>Error_properties_on_integers\<close>).
\<close>

theorem error_frame_status_is_a_string:
  "map_option fst (raw_get Map.empty None (device [0x00, 0xFF, 0x01, 0xFF, 0x01, 0xFF]))
     = Some (Inl (Error (PStr [0x01])))
   \<and> NADPresent (PStr [0x01]) = Inl TypeError
   \<and> MI (PStr [0x01]) = Inl TypeError
   \<and> error_code (PStr [0x01]) = Inl TypeError"
  by (simp add: run_simps device_def NADPresent_def MI_def error_code_def)

lemma Error_properties_on_integers:
  "NADPresent (PInt 0x01) = Inr False \<and> MI (PInt 0x01) = Inr False \<and> error_code (PInt 0x01) = Inr 1
   \<and> NADPresent (PInt 0xC1) = Inr True \<and> MI (PInt 0xC1) = Inr True \<and> error_code (PInt 0xC1) = Inr 1"
  by (simp add: NADPresent_def MI_def error_code_def)

section \<open>Sending GetFirmwareVersion\<close>

lemma towire_GetFirmwareVersion:
  "towire GetFirmwareVersion = Inr [0x00, 0xFF, 0x02, 0xFE, 0xD4, 0x02, 0x2A]"
  by (simp add: towire_def GetFirmwareVersion_def buildpayload_def wrap_def default_sent_def
      py_ord_def and_255)

text \<open>
  Claim C8, as stated, fails: what \<open>send(GetFirmwareVersion())\<close> writes is
  \<open>00 00 FF 02 FE D4 02 2A 00\<close>, not the byte sequence \<open>00 FF 02 FE D4 02 1A 00\<close>.
\<close>

theorem send_GetFirmwareVersion_not_spec_bytes:
  "concat (written (snd (send GetFirmwareVersion [0x00] [0x00] (device []))))
     = [0x00, 0x00, 0xFF, 0x02, 0xFE, 0xD4, 0x02, 0x2A, 0x00]
   \<and> concat (written (snd (send GetFirmwareVersion [0x00] [0x00] (device []))))
     \<noteq> [0x00, 0xFF, 0x02, 0xFE, 0xD4, 0x02, 0x1A, 0x00]"
  by (simp add: send_def towire_GetFirmwareVersion serial_write_def device_def)

text \<open>
  Claim C8, amended. \<open>send(GetFirmwareVersion())\<close> makes one write, of the nine bytes
  \<open>00 00 FF 02 FE D4 02 2A 00\<close>: the default preamble \<open>00\<close> of \<open>send\<close>, the frame
  \<open>00 FF\<close>, length 2, its checksum \<open>FE\<close>, the payload \<open>D4 02\<close>, the data checksum
  \<open>2A\<close>, and the default postamble \<open>00\<close>.
\<close>

theorem send_GetFirmwareVersion_bytes:
  "send GetFirmwareVersion [0x00] [0x00] w =
     (Inr (), serial_write [0x00, 0x00, 0xFF, 0x02, 0xFE, 0xD4, 0x02, 0x2A, 0x00] w)"
  by (simp add: send_def towire_GetFirmwareVersion)

section \<open>What the reading functions leave untouched\<close>

lemma serial_read_written': "serial_read n w = (bs, w') \<Longrightarrow> written w' = written w"
proof (induction n arbitrary: w bs w')
  case 0
  then show ?case by simp
next
  case (Suc n)
  show ?case
  proof (cases "rx w (rx_pos w)")
    case None
    with Suc.prems show ?thesis by auto
  next
    case (Some b)
    obtain bs' w'' where r: "serial_read n (w\<lparr>rx_pos := Suc (rx_pos w)\<rparr>) = (bs', w'')"
      by (cases "serial_read n (w\<lparr>rx_pos := Suc (rx_pos w)\<rparr>)")
    from Suc.IH[OF r] have "written w'' = written w" by simp
    with Suc.prems Some r show ?thesis by auto
  qed
qed

lemma read_step_written: "read_step stop header w = (r, w') \<Longrightarrow> written w' = written w"
  by (auto simp: read_step_def time_time_def dest!: serial_read_written'
      split: prod.splits option.splits if_splits)

lemma read_while_written:
  assumes "read_while cond stop header w = Some y"
  shows "written (snd y) = written w"
proof (rule read_while.raw_induct
    [where P = "\<lambda>cond stop header w y. written (snd y) = written w", OF _ assms], goal_cases)
  case (1 read_while cond stop header w y)
  show ?case
  proof (cases "cond header")
    case True
    obtain r w' where s: "read_step stop header w = (r, w')" by (cases "read_step stop header w")
    note ww = read_step_written[OF s]
    show ?thesis
    proof (cases r)
      case (Inl e)
      with 1(2) True s ww show ?thesis by auto
    next
      case (Inr h)
      with 1(2) True s have "read_while cond stop h w' = Some y" by simp
      from 1(1)[OF this] ww show ?thesis by simp
    qed
  next
    case False
    with 1(2) show ?thesis by auto
  qed
qed

lemma parse_header_written:
  assumes "parse_header stop header w = Some (r, w')"
  shows "written w' = written w"
proof (cases "drop 2 header")
  case Nil
  with assms show ?thesis by (simp add: parse_header_def)
next
  case (Cons LEN' t)
  show ?thesis
  proof (cases t)
    case Nil
    with assms Cons show ?thesis by (simp add: parse_header_def)
  next
    case t: (Cons LCS' t')
    show ?thesis
    proof (cases "py_ord LEN' = 0xFF \<and> py_ord LCS' = 0xFF")
      case False
      with assms Cons t show ?thesis
        by (auto simp: parse_header_def Let_def split: if_splits sum.splits)
    next
      case True
      with assms Cons t obtain r1 w1 where
        l: "read_while (\<lambda>h. length h < 7) stop header w = Some (r1, w1)" and
        k: "(case r1 of
               Inl e \<Rightarrow> Some (Inl e, w1)
             | Inr header' \<Rightarrow>
                (case drop 4 header' of
                   LENM' # LENL' # LCS2' # _ \<Rightarrow>
                     (let LENM = py_ord LENM'; LENL = py_ord LENL';
                          LEN = LENM * 0xFF + LENL; LCS = py_ord LCS2' in
                      case verifychecksum [PInt LENM, PInt LENL, PInt LCS] of
                        Inl e \<Rightarrow> Some (Inl e, w1)
                      | Inr _ \<Rightarrow> Some (Inr (Body LEN), w1))
                 | [_, _] \<Rightarrow> Some (Inl IndexError, w1)
                 | _ \<Rightarrow> Some (Inl ValueError, w1))) = Some (r, w')"
        by (auto simp: parse_header_def Option.bind_eq_Some_conv)
      from read_while_written[OF l] have "written w1 = written w" by simp
      moreover from k have "w' = w1"
        by (auto simp: Let_def split: sum.splits list.splits)
      ultimately show ?thesis by simp
    qed
  qed
qed

lemma read_body_written:
  "read_body types LEN w = (r, w') \<Longrightarrow> written w' = written w"
proof -
  obtain data w1 where d: "serial_read (nat LEN) w = (data, w1)"
    by (cases "serial_read (nat LEN) w")
  obtain DCS w2 where c: "serial_read 1 w1 = (DCS, w2)"
    by (cases "serial_read 1 w1")
  from serial_read_written'[OF d] serial_read_written'[OF c] have "written w2 = written w"
    by simp
  moreover assume "read_body types LEN w = (r, w')"
  then have "w' = w2"
    unfolding read_body_def d prod.case c
    by (auto split: sum.splits list.splits if_splits)
  ultimately show ?thesis by simp
qed

lemma raw_get_written:
  assumes "raw_get types timeout w = Some (r, w')"
  shows "written w' = written w"
proof -
  obtain stop w0 where st: "(case timeout of None \<Rightarrow> (None, w)
            | Some t \<Rightarrow> (case time_time w of (now, w') \<Rightarrow> (Some (now + t), w'))) = (stop, w0)"
    by (cases "(case timeout of None \<Rightarrow> (None, w)
            | Some t \<Rightarrow> (case time_time w of (now, w') \<Rightarrow> (Some (now + t), w')))")
  then have w0: "written w0 = written w"
    by (auto simp: time_time_def split: option.splits)
  from assms st obtain r1 w1 where
    l1: "read_while (\<lambda>h. index_00FF h = None) stop [] w0 = Some (r1, w1)"
    by (auto simp: raw_get_def Option.bind_eq_Some_conv)
  from read_while_written[OF l1] w0 have w1: "written w1 = written w" by simp
  show ?thesis
  proof (cases r1)
    case (Inl e)
    with assms st l1 w1 show ?thesis by (simp add: raw_get_def)
  next
    case (Inr header)
    show ?thesis
    proof (cases "index_00FF header")
      case None
      with assms st l1 w1 Inr show ?thesis by (simp add: raw_get_def)
    next
      case (Some start)
      with assms st l1 Inr obtain r2 w2 where
        l2: "read_while (\<lambda>h. length h < 4) stop (drop start header) w1 = Some (r2, w2)"
        by (auto simp: raw_get_def Option.bind_eq_Some_conv)
      from read_while_written[OF l2] w1 have w2: "written w2 = written w" by simp
      show ?thesis
      proof (cases r2)
        case (Inl e)
        with assms st l1 l2 w2 Inr Some show ?thesis by (simp add: raw_get_def)
      next
        case r2: (Inr header')
        with assms st l1 l2 Inr Some obtain r3 w3 where
          l3: "parse_header stop header' w2 = Some (r3, w3)"
          by (auto simp: raw_get_def Option.bind_eq_Some_conv)
        from parse_header_written[OF l3] w2 have w3: "written w3 = written w" by simp
        show ?thesis
          using assms st l1 l2 l3 Inr Some r2 w3
          by (auto simp: raw_get_def dest!: read_body_written split: sum.splits shape.splits)
      qed
    qed
  qed
qed

section \<open>The retry loop\<close>

lemma get_unfold:
  "get types timeout w =
     Option.bind (raw_get types timeout w)
       (\<lambda>(r, w'). if r = Inl ChecksumError then get types timeout (serial_write nack_msg w')
                   else Some (r, w'))"
  by (subst get.simps) (simp add: send_NACK cong: if_cong)

lemma get_no_checksum_error:
  assumes "get types timeout w = Some y"
  shows "fst y \<noteq> Inl ChecksumError"
proof (rule get.raw_induct
    [where P = "\<lambda>types timeout w y. fst y \<noteq> Inl ChecksumError", OF _ assms], goal_cases)
  case (1 get types timeout w y)
  from 1(2) obtain r w' where rg: "raw_get types timeout w = Some (r, w')"
    by (auto simp: Option.bind_eq_Some_conv)
  show ?case
  proof (cases "r = Inl ChecksumError")
    case True
    with 1(2) rg have "get types timeout (serial_write nack_msg w') = Some y"
      by (simp add: send_NACK)
    from 1(1)[OF this] show ?thesis .
  next
    case False
    with 1(2) rg show ?thesis by auto
  qed
qed

lemma get_writes_nacks:
  assumes "get types timeout w = Some y"
  shows "\<exists>n. written (snd y) = written w @ replicate n nack_msg"
proof (rule get.raw_induct
    [where P = "\<lambda>types timeout w y. \<exists>n. written (snd y) = written w @ replicate n nack_msg",
     OF _ assms], goal_cases)
  case (1 get types timeout w y)
  from 1(2) obtain r w' where rg: "raw_get types timeout w = Some (r, w')"
    by (auto simp: Option.bind_eq_Some_conv)
  note ww = raw_get_written[OF rg]
  show ?case
  proof (cases "r = Inl ChecksumError")
    case True
    with 1(2) rg have "get types timeout (serial_write nack_msg w') = Some y"
      by (simp add: send_NACK)
    from 1(1)[OF this] obtain n where
      "written (snd y) = written (serial_write nack_msg w') @ replicate n nack_msg" ..
    with ww have "written (snd y) = written w @ replicate (Suc n) nack_msg"
      by (simp add: serial_write_def replicate_app_Cons_same)
    then show ?thesis ..
  next
    case False
    with 1(2) rg ww have "written (snd y) = written w @ replicate 0 nack_msg" by auto
    then show ?thesis ..
  qed
qed

section \<open>The registry\<close>

lemma firmware_lookup:
  "get_class firmware_types 0x03 =
     Inr (GetFirmwareVersionResponse_fields (GetFirmwareVersionResponse_body\<lparr>cls_sent := Some False\<rparr>))"
  by (simp add: get_class_def firmware_types_def metaclass_init_def default_sent_def Let_def
      GetFirmwareVersionResponse_body_def GetFirmwareVersionResponse_fields_def)

text \<open>
  Claim C7, as stated, fails: a registration on a code that is taken does not fail, it
  replaces. The \<open>class\<close> statement of \<open>GetFirmwareVersionResponse\<close> registers a class
  under \<open>0x03\<close> whose constructor rejects four payload bytes; the decorator then
  registers its second class under the same code, and afterwards the registry builds
  the four-field frame from those bytes.
\<close>

theorem register_taken_code_replaces:
  "(case metaclass_init GetFirmwareVersionResponse_body Map.empty of
      (c0, t0) \<Rightarrow>
        map_option (\<lambda>c. cls_build c [0x32, 0x01, 0x06, 0x07]) (t0 0x03) = Some (Inl TypeError)
        \<and> (case metaclass_init (GetFirmwareVersionResponse_fields c0) t0 of
             (c1, t1) \<Rightarrow>
               map_option (\<lambda>c. cls_build c [0x32, 0x01, 0x06, 0x07]) (t1 0x03) =
                 Some (Inr (GetFirmwareVersionResponse (PInt 0x32) (PInt 0x01) (PInt 0x06) (PInt 0x07)))))"
  by (simp add: metaclass_init_def GetFirmwareVersionResponse_body_def Let_def
      GetFirmwareVersionResponse_fields_def GetFirmwareVersionResponse_def default_sent_def)

text \<open>
  Claim C7, amended. The registry maps a code to at most one class, the one registered
  last: creating a class with code \<open>c\<close> stores it under \<open>c\<close>, whatever was there,
  raises nothing and leaves every other code as it was; the class stored is the class
  itself, with \<open>sent\<close> set to "the code is even" when \<open>sent\<close> was not fixed. Looking up
  a code that is not registered raises \<open>KeyError\<close>.
\<close>

theorem registry_last_registration_wins:
  "cls_code cls = Some c \<Longrightarrow>
     (case metaclass_init cls types of
        (cls', types') \<Rightarrow>
          types' c = Some cls'
          \<and> get_class types' c = Inr cls'
          \<and> (\<forall>k. k \<noteq> c \<longrightarrow> types' k = types k)
          \<and> cls' = (if cls_sent cls = None then cls\<lparr>cls_sent := Some (even c)\<rparr> else cls))
     \<and> (types k = None \<longrightarrow> get_class types k = Inl KeyError)
     \<and> default_sent c = even c"
proof -
  have "default_sent c = even c"
    by (simp add: default_sent_def and_one_eq mod_2_eq_odd)
  moreover assume "cls_code cls = Some c"
  ultimately show ?thesis
    by (simp add: metaclass_init_def get_class_def Let_def)
qed

theorem registry_last_registration_wins_witness:
  "cls_code GetFirmwareVersionResponse_body = Some 0x03
   \<and> (case metaclass_init GetFirmwareVersionResponse_body [0x03 \<mapsto> GetFirmwareVersionResponse_body] of
        (cls', types') \<Rightarrow>
          types' 0x03 = Some cls'
          \<and> get_class types' 0x03 = Inr cls'
          \<and> types' 0x02 = None
          \<and> cls' = GetFirmwareVersionResponse_body\<lparr>cls_sent := Some False\<rparr>)
   \<and> get_class [0x03 \<mapsto> GetFirmwareVersionResponse_body] 0x58 = Inl KeyError
   \<and> \<not> default_sent 0x03"
proof -
  have h: "cls_code GetFirmwareVersionResponse_body = Some 0x03"
    by (simp add: GetFirmwareVersionResponse_body_def)
  have s: "cls_sent GetFirmwareVersionResponse_body = None"
    by (simp add: GetFirmwareVersionResponse_body_def)
  show ?thesis
    using registry_last_registration_wins
      [OF h, of "[0x03 \<mapsto> GetFirmwareVersionResponse_body]" "0x58"]
    by (simp add: h s split: prod.splits)
qed

lemma send_firmware_request:
  "send GetFirmwareVersion [0x00] [0x00] w =
     (Inr (), serial_write [0x00, 0x00, 0xFF, 0x02, 0xFE, 0xD4, 0x02, 0x2A, 0x00] w)"
  by (simp add: send_def towire_GetFirmwareVersion)

section \<open>Transactions\<close>

lemma doit_unfold:
  assumes "send f preamble postamble w = (Inr (), w1)"
  shows "doit types f timeout preamble postamble w =
     Option.bind (get types timeout w1)
       (\<lambda>(r, w2).
          case r of
            Inl e \<Rightarrow> Some (Inl e, w2)
          | Inr ack \<Rightarrow>
             if klass ack = ACK_class then
               Option.bind (get types timeout w2)
                 (\<lambda>(r, w3).
                    case r of
                      Inl e \<Rightarrow> Some (Inl e, w3)
                    | Inr res \<Rightarrow> Some (Inr (set_command res f), serial_write ack_msg w3))
             else Some (Inl IOError, w2))"
  using assms by (simp add: doit_def send_ACK cong: if_cong sum.case_cong)

text \<open>Three runs of \<open>doit(GetFirmwareVersion())\<close>, by what the device answers.\<close>

lemma run_nack:
  "get firmware_types None
       (serial_write m (device [0x00, 0x00, 0xFF, 0xFF, 0x00, 0x00])) =
     Some (Inr NACK, (serial_write m (device [0x00, 0x00, 0xFF, 0xFF, 0x00, 0x00]))\<lparr>rx_pos := 5\<rparr>)"
  by (simp add: get_unfold run_simps device_def)

lemma run_error_first:
  "get firmware_types None
       (serial_write m (device [0x00, 0xFF, 0x01, 0xFF, 0x7F, 0x81])) =
     Some (Inl (Error (PStr [0x7F])),
           (serial_write m (device [0x00, 0xFF, 0x01, 0xFF, 0x7F, 0x81]))\<lparr>rx_pos := 6\<rparr>)"
  by (simp add: get_unfold run_simps device_def)

lemma run_ack:
  "get firmware_types None (serial_write m (device (0x00 # 0x00 # 0xFF # 0x00 # 0xFF # 0x00 # rest))) =
     Some (Inr ACK,
       (serial_write m (device (0x00 # 0x00 # 0xFF # 0x00 # 0xFF # 0x00 # rest)))\<lparr>rx_pos := 5\<rparr>)"
  by (simp add: get_unfold run_simps device_def)

lemma run_response:
  "get firmware_types None
     ((serial_write m (device [0x00, 0x00, 0xFF, 0x00, 0xFF, 0x00,
          0x00, 0x00, 0xFF, 0x06, 0xFA, 0xD5, 0x03, 0x32, 0x01, 0x06, 0x07, 0xE8, 0x00]))
        \<lparr>rx_pos := 5\<rparr>) =
   Some (Inr (set_sent (GetFirmwareVersionResponse (PInt 0x32) (PInt 0x01) (PInt 0x06) (PInt 0x07)) False),
     (serial_write m (device [0x00, 0x00, 0xFF, 0x00, 0xFF, 0x00,
          0x00, 0x00, 0xFF, 0x06, 0xFA, 0xD5, 0x03, 0x32, 0x01, 0x06, 0x07, 0xE8, 0x00]))
        \<lparr>rx_pos := 18\<rparr>)"
  by (simp add: get_unfold raw_get_def read_while.simps read_step_def parse_header_def
      read_body_def py_ord_def verifychecksum_def fromwire_def Let_def serial_read_numeral
      serial_write_def device_def firmware_lookup GetFirmwareVersionResponse_fields_def
      GetFirmwareVersionResponse_body_def)

lemma run_error_second:
  "get firmware_types None
     ((serial_write m (device [0x00, 0x00, 0xFF, 0x00, 0xFF, 0x00, 0x00, 0xFF, 0x01, 0xFF, 0x7F, 0x81]))
        \<lparr>rx_pos := 5\<rparr>) =
   Some (Inl (Error (PStr [0x7F])),
     (serial_write m (device [0x00, 0x00, 0xFF, 0x00, 0xFF, 0x00, 0x00, 0xFF, 0x01, 0xFF, 0x7F, 0x81]))
        \<lparr>rx_pos := 12\<rparr>)"
  by (simp add: get_unfold run_simps device_def)

text \<open>
  Claim C3, as stated, fails: when the frame that arrives in place of the ACK is an
  application error frame, \<open>doit\<close> ends with the application \<open>Error\<close>, not with a
  transport error.
\<close>

theorem doit_error_frame_for_ack:
  "map_option fst
     (doit firmware_types GetFirmwareVersion None [0x00] [0x00]
        (device [0x00, 0xFF, 0x01, 0xFF, 0x7F, 0x81]))
   = Some (Inl (Error (PStr [0x7F])))"
  by (simp add: doit_unfold[OF send_firmware_request] run_error_first)

text \<open>
  Claim C3, amended. After the request is written: a frame other than an ACK that the
  first \<open>get\<close> returns (a NACK, a decoded data frame) makes \<open>doit\<close> raise \<open>IOError\<close>,
  which is not the application \<open>Error\<close>; an exception of the first \<open>get\<close> (an
  application error frame among them) goes to the caller as it is; after an ACK, the
  frame the second \<open>get\<close> returns is the result, with \<open>command\<close> set to the request,
  and the ACK message is the last thing written.
\<close>

theorem doit_transaction:
  assumes "send f preamble postamble w = (Inr (), w1)"
  shows "(get types timeout w1 = Some (Inr ack, w2) \<and> klass ack \<noteq> ACK_class \<longrightarrow>
            doit types f timeout preamble postamble w = Some (Inl IOError, w2))
       \<and> (get types timeout w1 = Some (Inl e, w2) \<longrightarrow>
            doit types f timeout preamble postamble w = Some (Inl e, w2))
       \<and> (get types timeout w1 = Some (Inr ack, w2) \<and> klass ack = ACK_class
            \<and> get types timeout w2 = Some (Inr res, w3) \<longrightarrow>
            doit types f timeout preamble postamble w =
              Some (Inr (set_command res f), serial_write ack_msg w3)
            \<and> command (set_command res f) = Some f
            \<and> written (serial_write ack_msg w3) = written w3 @ [ack_msg])
       \<and> IOError \<noteq> Error c"
  by (simp add: doit_unfold[OF assms] set_command_def serial_write_def)

theorem doit_transaction_witness:
  "doit firmware_types GetFirmwareVersion None [0x00] [0x00]
       (device [0x00, 0x00, 0xFF, 0xFF, 0x00, 0x00])
     = Some (Inl IOError,
         (serial_write [0x00, 0x00, 0xFF, 0x02, 0xFE, 0xD4, 0x02, 0x2A, 0x00]
            (device [0x00, 0x00, 0xFF, 0xFF, 0x00, 0x00]))\<lparr>rx_pos := 5\<rparr>)
   \<and> doit firmware_types GetFirmwareVersion None [0x00] [0x00]
       (device [0x00, 0xFF, 0x01, 0xFF, 0x7F, 0x81])
     = Some (Inl (Error (PStr [0x7F])),
         (serial_write [0x00, 0x00, 0xFF, 0x02, 0xFE, 0xD4, 0x02, 0x2A, 0x00]
            (device [0x00, 0xFF, 0x01, 0xFF, 0x7F, 0x81]))\<lparr>rx_pos := 6\<rparr>)
   \<and> doit firmware_types GetFirmwareVersion None [0x00] [0x00]
       (device [0x00, 0x00, 0xFF, 0x00, 0xFF, 0x00,
          0x00, 0x00, 0xFF, 0x06, 0xFA, 0xD5, 0x03, 0x32, 0x01, 0x06, 0x07, 0xE8, 0x00])
     = Some (Inr (set_command
                    (set_sent (GetFirmwareVersionResponse (PInt 0x32) (PInt 0x01) (PInt 0x06) (PInt 0x07)) False)
                    GetFirmwareVersion),
         serial_write ack_msg
          ((serial_write [0x00, 0x00, 0xFF, 0x02, 0xFE, 0xD4, 0x02, 0x2A, 0x00]
             (device [0x00, 0x00, 0xFF, 0x00, 0xFF, 0x00,
                0x00, 0x00, 0xFF, 0x06, 0xFA, 0xD5, 0x03, 0x32, 0x01, 0x06, 0x07, 0xE8, 0x00]))
           \<lparr>rx_pos := 18\<rparr>))
   \<and> command (set_command
                 (set_sent (GetFirmwareVersionResponse (PInt 0x32) (PInt 0x01) (PInt 0x06) (PInt 0x07)) False)
                 GetFirmwareVersion) = Some GetFirmwareVersion
   \<and> klass NACK \<noteq> ACK_class \<and> klass ACK = ACK_class"
proof -
  note t = doit_transaction[OF send_firmware_request, where types = firmware_types
      and timeout = None]
  have k: "klass NACK \<noteq> ACK_class" "klass ACK = ACK_class"
    by (simp_all add: NACK_def ACK_def)
  from t run_nack k
  have a: "doit firmware_types GetFirmwareVersion None [0x00] [0x00]
       (device [0x00, 0x00, 0xFF, 0xFF, 0x00, 0x00])
     = Some (Inl IOError,
         (serial_write [0x00, 0x00, 0xFF, 0x02, 0xFE, 0xD4, 0x02, 0x2A, 0x00]
            (device [0x00, 0x00, 0xFF, 0xFF, 0x00, 0x00]))\<lparr>rx_pos := 5\<rparr>)"
    by blast
  from t run_error_first
  have b: "doit firmware_types GetFirmwareVersion None [0x00] [0x00]
       (device [0x00, 0xFF, 0x01, 0xFF, 0x7F, 0x81])
     = Some (Inl (Error (PStr [0x7F])),
         (serial_write [0x00, 0x00, 0xFF, 0x02, 0xFE, 0xD4, 0x02, 0x2A, 0x00]
            (device [0x00, 0xFF, 0x01, 0xFF, 0x7F, 0x81]))\<lparr>rx_pos := 6\<rparr>)"
    by blast
  from t run_ack run_response k
  have c: "doit firmware_types GetFirmwareVersion None [0x00] [0x00]
       (device [0x00, 0x00, 0xFF, 0x00, 0xFF, 0x00,
          0x00, 0x00, 0xFF, 0x06, 0xFA, 0xD5, 0x03, 0x32, 0x01, 0x06, 0x07, 0xE8, 0x00])
     = Some (Inr (set_command
                    (set_sent (GetFirmwareVersionResponse (PInt 0x32) (PInt 0x01) (PInt 0x06) (PInt 0x07)) False)
                    GetFirmwareVersion),
         serial_write ack_msg
          ((serial_write [0x00, 0x00, 0xFF, 0x02, 0xFE, 0xD4, 0x02, 0x2A, 0x00]
             (device [0x00, 0x00, 0xFF, 0x00, 0xFF, 0x00,
                0x00, 0x00, 0xFF, 0x06, 0xFA, 0xD5, 0x03, 0x32, 0x01, 0x06, 0x07, 0xE8, 0x00]))
           \<lparr>rx_pos := 18\<rparr>))"
   and d: "command (set_command
                 (set_sent (GetFirmwareVersionResponse (PInt 0x32) (PInt 0x01) (PInt 0x06) (PInt 0x07)) False)
                 GetFirmwareVersion) = Some GetFirmwareVersion"
    by blast+
  from a b c d k show ?thesis by simp
qed

text \<open>
  Claim C10. When the first \<open>get\<close> of a transaction returns an ACK and the second one
  raises the application \<open>Error\<close>, \<open>doit\<close> ends with that \<open>Error\<close> in the state the
  second \<open>get\<close> left: no response is returned, and all that was written after the
  request are the NACKs of the retries, no closing ACK.
\<close>

theorem doit_error_response_no_ack:
  assumes "send f preamble postamble w = (Inr (), w1)"
    and "get types timeout w1 = Some (Inr ack, w2)"
    and "klass ack = ACK_class"
    and "get types timeout w2 = Some (Inl (Error c), w3)"
  shows "doit types f timeout preamble postamble w = Some (Inl (Error c), w3)
       \<and> (\<exists>n. written w3 = written w1 @ replicate n nack_msg)"
proof -
  from get_writes_nacks[OF assms(2)] obtain n1 where
    "written w2 = written w1 @ replicate n1 nack_msg" by auto
  moreover from get_writes_nacks[OF assms(4)] obtain n2 where
    "written w3 = written w2 @ replicate n2 nack_msg" by auto
  ultimately have "written w3 = written w1 @ replicate (n1 + n2) nack_msg"
    by (simp add: replicate_add)
  then have "\<exists>n. written w3 = written w1 @ replicate n nack_msg" ..
  then show ?thesis
    by (simp add: doit_unfold[OF assms(1)] assms(2,3,4))
qed

theorem doit_error_response_no_ack_witness:
  "doit firmware_types GetFirmwareVersion None [0x00] [0x00]
       (device [0x00, 0x00, 0xFF, 0x00, 0xFF, 0x00, 0x00, 0xFF, 0x01, 0xFF, 0x7F, 0x81])
     = Some (Inl (Error (PStr [0x7F])),
         (serial_write [0x00, 0x00, 0xFF, 0x02, 0xFE, 0xD4, 0x02, 0x2A, 0x00]
            (device [0x00, 0x00, 0xFF, 0x00, 0xFF, 0x00, 0x00, 0xFF, 0x01, 0xFF, 0x7F, 0x81]))
          \<lparr>rx_pos := 12\<rparr>)
   \<and> written ((serial_write [0x00, 0x00, 0xFF, 0x02, 0xFE, 0xD4, 0x02, 0x2A, 0x00]
            (device [0x00, 0x00, 0xFF, 0x00, 0xFF, 0x00, 0x00, 0xFF, 0x01, 0xFF, 0x7F, 0x81]))
          \<lparr>rx_pos := 12\<rparr>)
       = [[0x00, 0x00, 0xFF, 0x02, 0xFE, 0xD4, 0x02, 0x2A, 0x00]]"
proof -
  have k: "klass ACK = ACK_class" by (simp add: ACK_def)
  from doit_error_response_no_ack[OF send_firmware_request run_ack k run_error_second]
  show ?thesis by (simp add: serial_write_def device_def)
qed

section \<open>A line that never stops being corrupt\<close>

lemma noisy_rx:
  assumes "noisy_inv w"
  shows "rx w (rx_pos w) = Some 0x00" "rx w (Suc (rx_pos w)) = Some 0xFF"
    "rx w (Suc (Suc (rx_pos w))) = Some 0x01" "rx w (Suc (Suc (Suc (rx_pos w)))) = Some 0x00"
proof -
  from assms have m: "rx_pos w mod 4 = 0"
    and r: "rx w = (\<lambda>k. Some ([0x00, 0xFF, 0x01, 0x00] ! (k mod 4)))"
    by (simp_all add: noisy_def)
  have "Suc (rx_pos w) mod 4 = 1" "Suc (Suc (rx_pos w)) mod 4 = 2"
    "Suc (Suc (Suc (rx_pos w))) mod 4 = 3"
    using m by presburger+
  then show "rx w (rx_pos w) = Some 0x00" "rx w (Suc (rx_pos w)) = Some 0xFF"
    "rx w (Suc (Suc (rx_pos w))) = Some 0x01" "rx w (Suc (Suc (Suc (rx_pos w)))) = Some 0x00"
    using m by (simp_all add: r)
qed

lemma noisy_raw_get:
  assumes "noisy_inv w"
  shows "raw_get types (Some 10) w =
    Some (Inl ChecksumError, w\<lparr>rx_pos := rx_pos w + 4, clock_pos := clock_pos w + 5\<rparr>)"
proof -
  have c: "clock w = (\<lambda>k. real k)"
    using assms by (simp add: noisy_def)
  show ?thesis
    by (simp add: raw_get_def read_while.simps read_step_def parse_header_def py_ord_def
      verifychecksum_def time_time_def Let_def noisy_rx[OF assms] c)
qed

lemma get_leaves_noisy:
  assumes "get types timeout w = Some y"
  shows "\<not> (timeout = Some 10 \<and> noisy_inv w)"
proof (rule get.raw_induct
    [where P = "\<lambda>types timeout w y. \<not> (timeout = Some 10 \<and> noisy_inv w)", OF _ assms],
    goal_cases)
  case (1 get types timeout w y)
  show ?case
  proof
    assume a: "timeout = Some 10 \<and> noisy_inv w"
    then have g: "get types timeout
        (serial_write nack_msg (w\<lparr>rx_pos := rx_pos w + 4, clock_pos := clock_pos w + 5\<rparr>)) = Some y"
      using 1(2) by (simp add: noisy_raw_get send_NACK)
    from a have n: "noisy_inv
        (serial_write nack_msg (w\<lparr>rx_pos := rx_pos w + 4, clock_pos := clock_pos w + 5\<rparr>))"
      by (simp add: serial_write_def)
    from 1(1)[OF g] a n show False
      by simp
  qed
qed

text \<open>
  Claim C4, as stated, fails: on the line that repeats a corrupt header for ever, with
  a clock that advances at every reading, \<open>get\<close> with a timeout of 10 units never
  returns: no \<open>TimeoutError\<close>. Each \<open>raw_get\<close> ends in a \<open>ChecksumError\<close> 4 units
  after it set its own deadline.
\<close>

theorem get_noisy_never_returns: "get Map.empty (Some 10) noisy = None"
proof (cases "get Map.empty (Some 10) noisy")
  case (Some y)
  from get_leaves_noisy[OF this] show ?thesis
    by (simp add: noisy_def)
qed simp

text \<open>
  Claim C4, amended. \<open>get\<close> never ends with \<open>ChecksumError\<close>; when \<open>raw_get\<close> raises
  it, \<open>get\<close> writes a NACK and goes on as a new \<open>get\<close> with the same timeout value
  from the state reached (so the next \<open>raw_get\<close> takes a new deadline from the clock);
  a \<open>TimeoutError\<close> of \<open>raw_get\<close> ends \<open>get\<close> at once.
\<close>

theorem get_absorbs_checksum_errors:
  "(get types timeout w = Some (r, w') \<longrightarrow> r \<noteq> Inl ChecksumError)
   \<and> (raw_get types timeout w = Some (Inl ChecksumError, w1) \<longrightarrow>
        get types timeout w = get types timeout (serial_write nack_msg w1)
        \<and> written (serial_write nack_msg w1) = written w @ [nack_msg])
   \<and> (raw_get types timeout w = Some (Inl TimeoutError, w1) \<longrightarrow>
        get types timeout w = Some (Inl TimeoutError, w1))"
proof -
  have a: "get types timeout w = Some (r, w') \<longrightarrow> r \<noteq> Inl ChecksumError"
    using get_no_checksum_error[of types timeout w "(r, w')"] by auto
  have b: "raw_get types timeout w = Some (Inl ChecksumError, w1) \<longrightarrow>
        get types timeout w = get types timeout (serial_write nack_msg w1)
        \<and> written (serial_write nack_msg w1) = written w @ [nack_msg]"
    using raw_get_written[of types timeout w "Inl ChecksumError" w1]
    by (auto simp: get_unfold[of types timeout w] serial_write_def)
  have c: "raw_get types timeout w = Some (Inl TimeoutError, w1) \<longrightarrow>
        get types timeout w = Some (Inl TimeoutError, w1)"
    by (auto simp: get_unfold[of types timeout w])
  from a b c show ?thesis by blast
qed

lemma run_two_bad_headers:
  "get Map.empty (Some 5)
     (device [0x00, 0xFF, 0x01, 0x00, 0x00, 0xFF, 0x01, 0x00, 0x00, 0x00, 0xFF, 0x00, 0xFF, 0x00]) =
   Some (Inr ACK,
     (device [0x00, 0xFF, 0x01, 0x00, 0x00, 0xFF, 0x01, 0x00, 0x00, 0x00, 0xFF, 0x00, 0xFF, 0x00])
       \<lparr>rx_pos := 13, clock_pos := 16, written := [nack_msg, nack_msg]\<rparr>)"
  by (simp add: get_unfold run_simps device_def)

lemma run_first_bad_header:
  "raw_get Map.empty (Some 5)
     (device [0x00, 0xFF, 0x01, 0x00, 0x00, 0xFF, 0x01, 0x00, 0x00, 0x00, 0xFF, 0x00, 0xFF, 0x00]) =
   Some (Inl ChecksumError,
     (device [0x00, 0xFF, 0x01, 0x00, 0x00, 0xFF, 0x01, 0x00, 0x00, 0x00, 0xFF, 0x00, 0xFF, 0x00])
       \<lparr>rx_pos := 4, clock_pos := 5\<rparr>)"
  by (simp add: run_simps device_def)

lemma run_silence:
  "raw_get types (Some 1) (serial_write m (device [])) =
     Some (Inl TimeoutError, (serial_write m (device []))\<lparr>rx_pos := 2, clock_pos := 3\<rparr>)"
  by (simp add: run_simps device_def)

theorem get_absorbs_checksum_errors_witness:
  "get Map.empty (Some 5)
     (device [0x00, 0xFF, 0x01, 0x00, 0x00, 0xFF, 0x01, 0x00, 0x00, 0x00, 0xFF, 0x00, 0xFF, 0x00]) =
   Some (Inr ACK,
     (device [0x00, 0xFF, 0x01, 0x00, 0x00, 0xFF, 0x01, 0x00, 0x00, 0x00, 0xFF, 0x00, 0xFF, 0x00])
       \<lparr>rx_pos := 13, clock_pos := 16, written := [nack_msg, nack_msg]\<rparr>)
   \<and> Inr ACK \<noteq> (Inl ChecksumError :: exn + frame)
   \<and> get Map.empty (Some 5)
       (device [0x00, 0xFF, 0x01, 0x00, 0x00, 0xFF, 0x01, 0x00, 0x00, 0x00, 0xFF, 0x00, 0xFF, 0x00]) =
     get Map.empty (Some 5)
       (serial_write nack_msg
         ((device [0x00, 0xFF, 0x01, 0x00, 0x00, 0xFF, 0x01, 0x00, 0x00, 0x00, 0xFF, 0x00, 0xFF, 0x00])
            \<lparr>rx_pos := 4, clock_pos := 5\<rparr>))
   \<and> get Map.empty (Some 1) (serial_write [] (device [])) =
       Some (Inl TimeoutError, (serial_write [] (device []))\<lparr>rx_pos := 2, clock_pos := 3\<rparr>)"
proof -
  note t = get_absorbs_checksum_errors[where types = Map.empty]
  from t[where timeout = "Some 5"] run_two_bad_headers
  have a: "Inr ACK \<noteq> (Inl ChecksumError :: exn + frame)" by blast
  from t[where timeout = "Some 5"] run_first_bad_header
  have b: "get Map.empty (Some 5)
       (device [0x00, 0xFF, 0x01, 0x00, 0x00, 0xFF, 0x01, 0x00, 0x00, 0x00, 0xFF, 0x00, 0xFF, 0x00]) =
     get Map.empty (Some 5)
       (serial_write nack_msg
         ((device [0x00, 0xFF, 0x01, 0x00, 0x00, 0xFF, 0x01, 0x00, 0x00, 0x00, 0xFF, 0x00, 0xFF, 0x00])
            \<lparr>rx_pos := 4, clock_pos := 5\<rparr>))"
    by blast
  from t[where timeout = "Some 1"] run_silence
  have c: "get Map.empty (Some 1) (serial_write [] (device [])) =
       Some (Inl TimeoutError, (serial_write [] (device []))\<lparr>rx_pos := 2, clock_pos := 3\<rparr>)"
    by blast
  from a b c run_two_bad_headers show ?thesis by simp
qed

section \<open>Opening the connection\<close>

lemma send_SAMConfiguration:
  "send (SAMConfiguration (PInt 1) (PInt 0) PNone) wakeup_preamble [0x00] w =
     (Inr (), serial_write wakeup_msg w)"
  by (simp add: send_def towire_def SAMConfiguration_def buildpayload_def wrap_def
      default_sent_def py_ord_def and_255 wakeup_msg_def)

lemma enter_unfold:
  "enter types w =
     Option.bind (get types (Some 1) (serial_write wakeup_msg w))
       (\<lambda>(r, w2).
          case r of
            Inl e \<Rightarrow> if e = TimeoutError then Some (Inr (), w2) else Some (Inl e, w2)
          | Inr _ \<Rightarrow>
             map_option (\<lambda>(r, w3). (case r of Inl e \<Rightarrow> Inl e | Inr _ \<Rightarrow> Inr (), w3))
               (get types None w2))"
proof -
  have m: "Option.bind x (\<lambda>(r, w3). case r of Inl e \<Rightarrow> Some (Inl e, w3) | Inr _ \<Rightarrow> Some (Inr (), w3))
      = map_option (\<lambda>(r, w3). (case r of Inl e \<Rightarrow> Inl e | Inr _ \<Rightarrow> Inr (), w3)) x"
    for x :: "((exn + frame) \<times> world) option"
    by (cases x) (auto split: sum.splits)
  show ?thesis
    unfolding enter_def send_SAMConfiguration prod.case sum.case m
    by simp
qed

lemma run_enter_silence:
  "enter types (device []) =
     Some (Inr (), (serial_write wakeup_msg (device []))\<lparr>rx_pos := 2, clock_pos := 3\<rparr>)"
  by (simp add: enter_unfold get_unfold run_silence)

lemma length_wakeup_preamble: "length wakeup_preamble = 17"
  by (simp add: wakeup_preamble_def)

text \<open>
  Claim C9, as stated, fails: the preamble that \<open>__enter__\<close> puts before the frame has
  17 bytes, not 16. On a silent line \<open>__enter__\<close> returns after one write, the
  preamble followed by the frame and the postamble.
\<close>

theorem enter_preamble_has_17_bytes:
  "map_option (\<lambda>(r, w). (r, written w)) (enter Map.empty (device [])) =
     Some (Inr (), [wakeup_preamble @ [0x00, 0xFF, 0x03, 0xFD, 0xD4, 0x14, 0x01, 0x17, 0x00]])
   \<and> length wakeup_preamble \<noteq> 16"
  using run_enter_silence[of Map.empty]
  by (simp add: length_wakeup_preamble serial_write_def device_def wakeup_msg_def)

text \<open>
  Claim C9, amended. \<open>__enter__\<close> writes the frame of \<open>SAMConfiguration(1, 0, None)\<close>
  behind a preamble of 17 bytes and before the postamble \<open>00\<close>, then calls \<open>get\<close>
  with a timeout of one second; a \<open>TimeoutError\<close> ends \<open>__enter__\<close> normally with no
  further read, and when a frame was returned there is one more \<open>get\<close>, with no
  timeout, whose frame is dropped and whose exception goes to the caller.
\<close>

theorem enter_wakes_and_drains:
  "send (SAMConfiguration (PInt 1) (PInt 0) PNone) wakeup_preamble [0x00] w =
     (Inr (), serial_write wakeup_msg w)
   \<and> length wakeup_preamble = 17
   \<and> (get types (Some 1) (serial_write wakeup_msg w) = Some (Inl TimeoutError, w2) \<longrightarrow>
        enter types w = Some (Inr (), w2))
   \<and> (get types (Some 1) (serial_write wakeup_msg w) = Some (Inr f, w2) \<longrightarrow>
        enter types w =
          map_option (\<lambda>(r, w3). (case r of Inl e \<Rightarrow> Inl e | Inr _ \<Rightarrow> Inr (), w3))
            (get types None w2))"
  by (simp add: send_SAMConfiguration enter_unfold[of types w] length_wakeup_preamble)

lemma run_wakeup_ack:
  "get firmware_types (Some 1)
     (serial_write m ((device [0x00, 0x00, 0xFF, 0x00, 0xFF, 0x00,
          0x00, 0x00, 0xFF, 0x06, 0xFA, 0xD5, 0x03, 0x32, 0x01, 0x06, 0x07, 0xE8, 0x00])
        \<lparr>clock := \<lambda>k. real k / 100\<rparr>)) =
   Some (Inr ACK,
     (serial_write m (device [0x00, 0x00, 0xFF, 0x00, 0xFF, 0x00,
          0x00, 0x00, 0xFF, 0x06, 0xFA, 0xD5, 0x03, 0x32, 0x01, 0x06, 0x07, 0xE8, 0x00]))
        \<lparr>clock := \<lambda>k. real k / 100, rx_pos := 5, clock_pos := 6\<rparr>)"
  by (simp add: get_unfold run_simps device_def)

lemma run_wakeup_response:
  "get firmware_types None
     ((serial_write m (device [0x00, 0x00, 0xFF, 0x00, 0xFF, 0x00,
          0x00, 0x00, 0xFF, 0x06, 0xFA, 0xD5, 0x03, 0x32, 0x01, 0x06, 0x07, 0xE8, 0x00]))
        \<lparr>clock := \<lambda>k. real k / 100, rx_pos := 5, clock_pos := 6\<rparr>) =
   Some (Inr (set_sent (GetFirmwareVersionResponse (PInt 0x32) (PInt 0x01) (PInt 0x06) (PInt 0x07)) False),
     (serial_write m (device [0x00, 0x00, 0xFF, 0x00, 0xFF, 0x00,
          0x00, 0x00, 0xFF, 0x06, 0xFA, 0xD5, 0x03, 0x32, 0x01, 0x06, 0x07, 0xE8, 0x00]))
        \<lparr>clock := \<lambda>k. real k / 100, rx_pos := 18, clock_pos := 6\<rparr>)"
  by (simp add: get_unfold raw_get_def read_while.simps read_step_def parse_header_def
      read_body_def py_ord_def verifychecksum_def fromwire_def Let_def serial_read_numeral
      serial_write_def device_def firmware_lookup GetFirmwareVersionResponse_fields_def
      GetFirmwareVersionResponse_body_def)

theorem enter_wakes_and_drains_witness:
  "enter firmware_types (device []) =
     Some (Inr (), (serial_write wakeup_msg (device []))\<lparr>rx_pos := 2, clock_pos := 3\<rparr>)
   \<and> enter firmware_types
       ((device [0x00, 0x00, 0xFF, 0x00, 0xFF, 0x00,
          0x00, 0x00, 0xFF, 0x06, 0xFA, 0xD5, 0x03, 0x32, 0x01, 0x06, 0x07, 0xE8, 0x00])
        \<lparr>clock := \<lambda>k. real k / 100\<rparr>) =
     Some (Inr (),
       (serial_write wakeup_msg (device [0x00, 0x00, 0xFF, 0x00, 0xFF, 0x00,
          0x00, 0x00, 0xFF, 0x06, 0xFA, 0xD5, 0x03, 0x32, 0x01, 0x06, 0x07, 0xE8, 0x00]))
        \<lparr>clock := \<lambda>k. real k / 100, rx_pos := 18, clock_pos := 6\<rparr>)
   \<and> length wakeup_preamble = 17"
proof -
  have s: "get firmware_types (Some 1) (serial_write wakeup_msg (device [])) =
      Some (Inl TimeoutError, (serial_write wakeup_msg (device []))\<lparr>rx_pos := 2, clock_pos := 3\<rparr>)"
    by (simp add: get_unfold run_silence)
  from enter_wakes_and_drains[where types = firmware_types and w = "device []"] s
  have a: "enter firmware_types (device []) =
     Some (Inr (), (serial_write wakeup_msg (device []))\<lparr>rx_pos := 2, clock_pos := 3\<rparr>)"
    and l: "length wakeup_preamble = 17"
    by blast+
  from enter_wakes_and_drains[where types = firmware_types and w = "(device [0x00, 0x00, 0xFF, 0x00, 0xFF, 0x00,
          0x00, 0x00, 0xFF, 0x06, 0xFA, 0xD5, 0x03, 0x32, 0x01, 0x06, 0x07, 0xE8, 0x00])
        \<lparr>clock := \<lambda>k. real k / 100\<rparr>"] run_wakeup_ack
  have "enter firmware_types
       ((device [0x00, 0x00, 0xFF, 0x00, 0xFF, 0x00,
          0x00, 0x00, 0xFF, 0x06, 0xFA, 0xD5, 0x03, 0x32, 0x01, 0x06, 0x07, 0xE8, 0x00])
        \<lparr>clock := \<lambda>k. real k / 100\<rparr>) =
     map_option (\<lambda>(r, w3). (case r of Inl e \<Rightarrow> Inl e | Inr _ \<Rightarrow> Inr (), w3))
       (get firmware_types None
         ((serial_write wakeup_msg (device [0x00, 0x00, 0xFF, 0x00, 0xFF, 0x00,
          0x00, 0x00, 0xFF, 0x06, 0xFA, 0xD5, 0x03, 0x32, 0x01, 0x06, 0x07, 0xE8, 0x00]))
        \<lparr>clock := \<lambda>k. real k / 100, rx_pos := 5, clock_pos := 6\<rparr>))"
    by blast
  then have b: "enter firmware_types
       ((device [0x00, 0x00, 0xFF, 0x00, 0xFF, 0x00,
          0x00, 0x00, 0xFF, 0x06, 0xFA, 0xD5, 0x03, 0x32, 0x01, 0x06, 0x07, 0xE8, 0x00])
        \<lparr>clock := \<lambda>k. real k / 100\<rparr>) =
     Some (Inr (),
       (serial_write wakeup_msg (device [0x00, 0x00, 0xFF, 0x00, 0xFF, 0x00,
          0x00, 0x00, 0xFF, 0x06, 0xFA, 0xD5, 0x03, 0x32, 0x01, 0x06, 0x07, 0xE8, 0x00]))
        \<lparr>clock := \<lambda>k. real k / 100, rx_pos := 18, clock_pos := 6\<rparr>)"
    by (simp add: run_wakeup_response)
  from a b l show ?thesis by simp
qed

end
